theory Spec2Isabelle
  imports Main "HOL-Library.Sublist"
begin

section \<open>The runtime preload shim (rthook-gallery-dl.py)\<close>

text \<open>
  The shim is one Python function, \<^verbatim>\<open>_preload_extractor(modname, relpath)\<close>, and one
  call of it at module level. Its body is a straight line of calls into the interpreter
  and the operating system. The model keeps the body as it is written and makes explicit
  what each call reads, writes and raises:
  \<^item> what the process can change is a \<open>world\<close>: the directories and files of the
    filesystem with the times the files were last written, the bytecode files cached for
    source files, and the module registry \<^verbatim>\<open>sys.modules\<close>;
  \<^item> what is fixed during a run is an \<open>env\<close>: the packages of the bundle and the data
    their loader reads, the temporary directory of the platform, the errors the operating
    system answers with, the time, the suffixes the interpreter loads extension modules
    from, how bytecode files are checked, and whether code raises when it is run in a
    given world;
  \<^item> an exception is the value \<open>Inl e\<close>; an operation that changes the world returns
    the world it leaves behind next to its result, also when it raises.
  Bytes and paths are HOL strings (a \<open>char\<close> is one byte). Paths follow
  \<^verbatim>\<open>posixpath\<close>. Whether the code of a module raises may depend on the whole world
  it runs in. What that code may itself change in the filesystem or in the registry, and
  the import of the package that \<^verbatim>\<open>pkgutil.get_data\<close> may perform, are outside the
  model.
\<close>

subsection \<open>Values\<close>

type_synonym bytes = string
type_synonym path = string

datatype py_error =
    OSError string
  | AttributeError
  | AssertionError
  | ImportError string
  | CodeError string

datatype loader = ExtensionFileLoader | SourceFileLoader | SourcelessFileLoader

record module_spec =
  s_name :: string
  s_origin :: path
  s_loader :: "loader option"

record pymodule =
  m_name :: string
  m_file :: path
  m_code :: "bytes option"

text \<open>
  The header of a bytecode file says how the file is checked against its source: by the
  time and size of the source it was compiled from, or by a hash of that source, which
  is compared only if the flag in the header or the interpreter asks for it. The code of
  a bytecode file is written as the source text that compiles to it.
\<close>

datatype pyc_header = Timestamp nat nat | Hashed bool nat

datatype hash_mode = Check_default | Check_always | Check_never

text \<open>
  \<open>pycache\<close> gives, for the path of a source file, the well-formed bytecode file
  cached for it (the file \<^verbatim>\<open>__pycache__/name.tag.pyc\<close> next to it), if there is one.
\<close>

record world =
  dirs :: "path set"
  files :: "path \<rightharpoonup> bytes"
  mtimes :: "path \<rightharpoonup> nat"
  pycache :: "path \<rightharpoonup> pyc_header \<times> bytes"
  sys_modules :: "string \<rightharpoonup> pymodule"

text \<open>
  What \<^verbatim>\<open>importlib.util.find_spec\<close> finds for a package of the bundle: whether its
  loader has \<^verbatim>\<open>get_data\<close>, whether importing the package raises, and the
  \<^verbatim>\<open>__file__\<close> of the package, if it has one.
\<close>

record package_spec =
  has_get_data :: bool
  load_error :: "string option"
  module_file :: "path option"

record env =
  find_spec :: "string \<Rightarrow> py_error + package_spec option"
  loader_data :: "path \<rightharpoonup> bytes"
  gettempdir :: "py_error + path"
  mkdir_errno :: "path \<Rightarrow> string option"
  open_errno :: "path \<Rightarrow> string option"
  write_capacity :: "path \<Rightarrow> nat option"
  clock :: nat
  extension_suffixes :: "string list"
  check_hash_based_pycs :: hash_mode
  source_hash :: "bytes \<Rightarrow> nat"
  exec_error :: "world \<Rightarrow> string \<Rightarrow> bytes \<Rightarrow> string option"

subsection \<open>Paths\<close>

text \<open>
  \<^verbatim>\<open>os.path.join(a, b)\<close>: an absolute \<open>b\<close> replaces \<open>a\<close>; otherwise the two are
  joined with one separator, unless \<open>a\<close> is empty or already ends with one.
\<close>

definition path_join :: "path \<Rightarrow> path \<Rightarrow> path" where
  "path_join a b =
     (if prefix ''/'' b then b
      else if a = [] \<or> suffix ''/'' a then a @ b
      else a @ ''/'' @ b)"

text \<open>
  \<^verbatim>\<open>os.path.dirname(p)\<close>: everything up to and including the last separator, with
  the trailing separators removed unless nothing else is left.
\<close>

definition dirname :: "path \<Rightarrow> path" where
  "dirname p =
     (let head = rev (dropWhile (\<lambda>c. c \<noteq> CHR ''/'') (rev p))
      in if head \<noteq> [] \<and> (\<exists>c \<in> set head. c \<noteq> CHR ''/'')
         then rev (dropWhile (\<lambda>c. c = CHR ''/'') (rev head))
         else head)"

text \<open>
  The directories above a path, outermost first: each proper prefix that ends just before
  a separator. \<open>seen\<close> is the part of the path already read.
\<close>

fun parents_from :: "path \<Rightarrow> path \<Rightarrow> path list" where
  "parents_from seen [] = []"
| "parents_from seen (c # cs) =
     (if c = CHR ''/'' \<and> seen \<noteq> [] then [seen] else []) @ parents_from (seen @ [c]) cs"

definition ancestors :: "path \<Rightarrow> path list" where
  "ancestors p = parents_from [] p"

subsection \<open>Packaged data\<close>

text \<open>A resource name as its parts, as \<^verbatim>\<open>resource.split('/')\<close> gives them.\<close>

fun split_slashes :: "string \<Rightarrow> string list" where
  "split_slashes [] = [[]]"
| "split_slashes (c # cs) =
     (if c = CHR ''/'' then [] # split_slashes cs
      else (case split_slashes cs of
              [] \<Rightarrow> [[c]]
            | x # xs \<Rightarrow> (c # x) # xs))"

text \<open>
  The path \<^verbatim>\<open>pkgutil.get_data\<close> hands to the loader: the directory of the package's
  \<^verbatim>\<open>__file__\<close> joined with the parts of the resource name.
\<close>

definition resource_name :: "path \<Rightarrow> string \<Rightarrow> path" where
  "resource_name file resource = foldl path_join (dirname file) (split_slashes resource)"

text \<open>
  \<^verbatim>\<open>pkgutil.get_data(package, resource)\<close>. The answer is \<^verbatim>\<open>None\<close> when the package
  is not found, when its loader has no \<^verbatim>\<open>get_data\<close>, or when the package has no
  \<^verbatim>\<open>__file__\<close>. Otherwise the loader reads the file, and a loader asked for a file that
  is not there raises \<^verbatim>\<open>OSError\<close> (\<^verbatim>\<open>FileNotFoundError\<close>). Finding or importing the
  package may raise as well.
\<close>

definition packaged_data :: "env \<Rightarrow> string \<Rightarrow> path \<Rightarrow> py_error + bytes option" where
  "packaged_data env package resource =
     (case find_spec env package of
        Inl e \<Rightarrow> Inl e
      | Inr None \<Rightarrow> Inr None
      | Inr (Some spec) \<Rightarrow>
          if \<not> has_get_data spec then Inr None
          else (case load_error spec of
                  Some e \<Rightarrow> Inl (ImportError e)
                | None \<Rightarrow>
                    (case module_file spec of
                       None \<Rightarrow> Inr None
                     | Some file \<Rightarrow>
                         (case loader_data env (resource_name file resource) of
                            None \<Rightarrow> Inl (OSError ''ENOENT'')
                          | Some data \<Rightarrow> Inr (Some data)))))"

subsection \<open>Filesystem operations\<close>

text \<open>
  \<^verbatim>\<open>os.mkdir(d)\<close>: refused when \<open>d\<close> is a file, or when the operating system says so
  (\<open>mkdir_errno\<close>: permissions, a read-only or full device).
\<close>

definition mkdir :: "env \<Rightarrow> path \<Rightarrow> world \<Rightarrow> (py_error + unit) \<times> world" where
  "mkdir env d w =
     (if d \<in> dom (files w) then (Inl (OSError ''EEXIST''), w)
      else case mkdir_errno env d of
             Some e \<Rightarrow> (Inl (OSError e), w)
           | None \<Rightarrow> (Inr (), w\<lparr>dirs := insert d (dirs w)\<rparr>))"

text \<open>
  \<^verbatim>\<open>os.makedirs(name, exist_ok=True)\<close>: creates the missing directories from the
  outermost one down to \<open>name\<close>; a directory that is already there is not an error. The
  first directory that cannot be created raises, and the ones created before it stay.
\<close>

fun mkdir_all :: "env \<Rightarrow> path list \<Rightarrow> world \<Rightarrow> (py_error + unit) \<times> world" where
  "mkdir_all env [] w = (Inr (), w)"
| "mkdir_all env (d # ds) w =
     (if d \<in> dirs w then mkdir_all env ds w
      else case mkdir env d w of
             (Inl e, w') \<Rightarrow> (Inl e, w')
           | (Inr u, w') \<Rightarrow> mkdir_all env ds w')"

definition makedirs :: "env \<Rightarrow> path \<Rightarrow> world \<Rightarrow> (py_error + unit) \<times> world" where
  "makedirs env name w =
     (if name = [] then (Inl (OSError ''ENOENT''), w)
      else mkdir_all env (ancestors name @ [name]) w)"

text \<open>
  \<^verbatim>\<open>with open(dst, 'wb') as f: f.write(data)\<close>. Opening fails when \<open>dst\<close> is a
  directory, when its directory does not exist, or when the operating system says so
  (\<open>open_errno\<close>). Once opened the file is truncated. \<open>write_capacity\<close> is the number
  of bytes the device still takes for this file (\<open>None\<close>: no limit); a longer write
  leaves what fitted and raises. A file that was opened has the time of the run as the
  time of its last write.
\<close>

definition write_file :: "env \<Rightarrow> path \<Rightarrow> bytes \<Rightarrow> world \<Rightarrow> (py_error + unit) \<times> world" where
  "write_file env dst data w =
     (if dst \<in> dirs w then (Inl (OSError ''EISDIR''), w)
      else if dirname dst \<noteq> [] \<and> dirname dst \<notin> dirs w then (Inl (OSError ''ENOENT''), w)
      else case open_errno env dst of
             Some e \<Rightarrow> (Inl (OSError e), w)
           | None \<Rightarrow>
               (case write_capacity env dst of
                  None \<Rightarrow>
                    (Inr (), w\<lparr>files := (files w)(dst \<mapsto> data),
                               mtimes := (mtimes w)(dst \<mapsto> clock env)\<rparr>)
                | Some k \<Rightarrow>
                    if length data \<le> k
                    then (Inr (), w\<lparr>files := (files w)(dst \<mapsto> data),
                                    mtimes := (mtimes w)(dst \<mapsto> clock env)\<rparr>)
                    else (Inl (OSError ''ENOSPC''),
                          w\<lparr>files := (files w)(dst \<mapsto> take k data),
                            mtimes := (mtimes w)(dst \<mapsto> clock env)\<rparr>)))"

subsection \<open>Module loading\<close>

text \<open>
  \<^verbatim>\<open>importlib.util.spec_from_file_location(name, location)\<close> with no loader given:
  the first file loader one of whose suffixes ends the location is chosen (extension
  modules, then source, then bytecode); when none matches the result is \<^verbatim>\<open>None\<close>.
\<close>

definition supported_file_loaders :: "env \<Rightarrow> (loader \<times> string list) list" where
  "supported_file_loaders env =
     [(ExtensionFileLoader, extension_suffixes env),
      (SourceFileLoader, [''.py'']),
      (SourcelessFileLoader, [''.pyc''])]"

definition spec_from_file_location :: "env \<Rightarrow> string \<Rightarrow> path \<Rightarrow> module_spec option" where
  "spec_from_file_location env name location =
     (case find (\<lambda>(l, sfx). \<exists>s \<in> set sfx. suffix s location) (supported_file_loaders env) of
        None \<Rightarrow> None
      | Some (l, sfx) \<Rightarrow> Some \<lparr>s_name = name, s_origin = location, s_loader = Some l\<rparr>)"

text \<open>
  \<^verbatim>\<open>importlib.util.module_from_spec(spec)\<close>: a new module object that has not run yet.
  Given \<^verbatim>\<open>None\<close> it raises \<^verbatim>\<open>AttributeError\<close>.
\<close>

definition module_from_spec :: "module_spec option \<Rightarrow> py_error + pymodule" where
  "module_from_spec spec =
     (case spec of
        None \<Rightarrow> Inl AttributeError
      | Some s \<Rightarrow> Inr \<lparr>m_name = s_name s, m_file = s_origin s, m_code = None\<rparr>)"

text \<open>
  Whether the source loader takes a cached bytecode file for the source at \<open>p\<close> with
  content \<open>source\<close> (\<^verbatim>\<open>SourceLoader.get_code\<close>). A file checked by time must carry
  the time of the last write and the size of the source, both as 32-bit numbers. A file
  checked by hash is compared with the hash of the source if its flag says so and the
  interpreter does not forbid it, or if the interpreter always asks; otherwise it is taken
  unchecked.
\<close>

definition pyc_valid :: "env \<Rightarrow> world \<Rightarrow> path \<Rightarrow> bytes \<Rightarrow> pyc_header \<Rightarrow> bool" where
  "pyc_valid env w p source h =
     (case h of
        Timestamp t n \<Rightarrow>
          (case mtimes w p of
             None \<Rightarrow> False
           | Some mt \<Rightarrow> t = mt mod 2 ^ 32 \<and> n = length source mod 2 ^ 32)
      | Hashed check_source hash \<Rightarrow>
          if check_hash_based_pycs env \<noteq> Check_never \<and>
             (check_source \<or> check_hash_based_pycs env = Check_always)
          then hash = source_hash env source
          else True)"

text \<open>
  The code the source loader runs for the source at \<open>p\<close>: that of the cached bytecode
  file if there is one and it is taken, the source itself otherwise.
\<close>

definition get_code :: "env \<Rightarrow> world \<Rightarrow> path \<Rightarrow> bytes \<Rightarrow> bytes" where
  "get_code env w p source =
     (case pycache w p of
        None \<Rightarrow> source
      | Some (h, code) \<Rightarrow> if pyc_valid env w p source h then code else source)"

text \<open>
  \<^verbatim>\<open>loader.exec_module(module)\<close>: the loader reads the file the module comes from,
  the source loader looks for cached bytecode, and the code is run in the module, in the
  world as it then is. \<open>m_code\<close> records the code that was run. The shim runs in a
  frozen application, which starts the interpreter with \<^verbatim>\<open>sys.dont_write_bytecode\<close>
  set: bytecode files are read and never written.
\<close>

definition exec_module :: "env \<Rightarrow> world \<Rightarrow> loader \<Rightarrow> pymodule \<Rightarrow> py_error + pymodule" where
  "exec_module env w l m =
     (case files w (m_file m) of
        None \<Rightarrow> Inl (OSError ''ENOENT'')
      | Some content \<Rightarrow>
          (let code = (case l of
                         SourceFileLoader \<Rightarrow> get_code env w (m_file m) content
                       | ExtensionFileLoader \<Rightarrow> content
                       | SourcelessFileLoader \<Rightarrow> content)
           in case exec_error env w (m_name m) code of
                Some e \<Rightarrow> Inl (CodeError e)
              | None \<Rightarrow> Inr (m\<lparr>m_code := Some code\<rparr>)))"

subsection \<open>The shim\<close>

text \<open>
  Lines 9 to 14 of \<^verbatim>\<open>_preload_extractor\<close>: the temporary directory, the destination
  path, its directory, and the file written there.
\<close>

definition materialize :: "env \<Rightarrow> path \<Rightarrow> bytes \<Rightarrow> world \<Rightarrow> (py_error + path) \<times> world" where
  "materialize env relpath data w =
     (case gettempdir env of
        Inl e \<Rightarrow> (Inl e, w)
      | Inr tmp \<Rightarrow>
          (let tmpdir = path_join tmp ''gallery_dl_pyinst_extractors'' in
           case makedirs env tmpdir w of
             (Inl e, w1) \<Rightarrow> (Inl e, w1)
           | (Inr u1, w1) \<Rightarrow>
               (let dst = path_join tmpdir relpath in
                case makedirs env (dirname dst) w1 of
                  (Inl e, w2) \<Rightarrow> (Inl e, w2)
                | (Inr u2, w2) \<Rightarrow>
                    (case write_file env dst data w2 of
                       (Inl e, w3) \<Rightarrow> (Inl e, w3)
                     | (Inr u3, w3) \<Rightarrow> (Inr dst, w3)))))"

text \<open>
  Lines 15 to 18: the spec for the written file, the module made from it, the assertion
  on the loader, and the run of the module. With no spec, line 16 raises; the assertion
  of line 17 is reached only with a spec.
\<close>

definition load_module :: "env \<Rightarrow> string \<Rightarrow> path \<Rightarrow> world \<Rightarrow> py_error + pymodule" where
  "load_module env modname dst w =
     (let spec = spec_from_file_location env modname dst in
      case module_from_spec spec of
        Inl e \<Rightarrow> Inl e
      | Inr module \<Rightarrow>
          (case spec of
             None \<Rightarrow> Inl AttributeError
           | Some s \<Rightarrow>
               (case s_loader s of
                  None \<Rightarrow> Inl AssertionError
                | Some l \<Rightarrow> exec_module env w l module)))"

text \<open>
  \<^verbatim>\<open>_preload_extractor(modname, relpath)\<close>. Line 6 fetches the resource; line 7 tests
  \<^verbatim>\<open>not data\<close>, which holds for \<^verbatim>\<open>None\<close> and for the empty byte string; line 19
  stores the module in \<^verbatim>\<open>sys.modules\<close>. Nothing is caught anywhere.
\<close>

definition preload_extractor ::
  "env \<Rightarrow> string \<Rightarrow> path \<Rightarrow> world \<Rightarrow> (py_error + unit) \<times> world" where
  "preload_extractor env modname relpath w =
     (case packaged_data env ''gallery_dl.extractor'' relpath of
        Inl e \<Rightarrow> (Inl e, w)
      | Inr None \<Rightarrow> (Inr (), w)
      | Inr (Some data) \<Rightarrow>
          if data = [] then (Inr (), w)
          else (case materialize env relpath data w of
                  (Inl e, w1) \<Rightarrow> (Inl e, w1)
                | (Inr dst, w1) \<Rightarrow>
                    (case load_module env modname dst w1 of
                       Inl e \<Rightarrow> (Inl e, w1)
                     | Inr module \<Rightarrow>
                         (Inr (), w1\<lparr>sys_modules := (sys_modules w1)(modname \<mapsto> module)\<rparr>))))"

text \<open>Line 22, the module level of the hook: the one extractor that is preloaded.\<close>

definition rthook_gallery_dl :: "env \<Rightarrow> world \<Rightarrow> (py_error + unit) \<times> world" where
  "rthook_gallery_dl env w = preload_extractor env ''gallery_dl.extractor.2ch'' ''2ch.py'' w"

text \<open>
  The two paths of lines 9 and 11, by name: the directory under the temporary directory
  \<open>tmp\<close>, and the file the resource is written to.
\<close>

definition extractors_tmpdir :: "path \<Rightarrow> path" where
  "extractors_tmpdir tmp = path_join tmp ''gallery_dl_pyinst_extractors''"

definition preload_dst :: "path \<Rightarrow> path \<Rightarrow> path" where
  "preload_dst tmp relpath = path_join (extractors_tmpdir tmp) relpath"

subsection \<open>A concrete bundle and process\<close>

text \<open>
  A bundle whose package \<^verbatim>\<open>gallery_dl.extractor\<close> lies in \<^verbatim>\<open>/app/gallery_dl/extractor\<close>
  and ships \<^verbatim>\<open>2ch.py\<close> with five bytes, on a machine whose temporary directory is
  \<^verbatim>\<open>/tmp\<close> and where nothing fails; and a process that has loaded nothing, whose
  temporary directory exists and holds nothing.
\<close>

definition extractor_spec :: package_spec where
  "extractor_spec = \<lparr>has_get_data = True, load_error = None,
                     module_file = Some ''/app/gallery_dl/extractor/__init__.py''\<rparr>"

definition bundle_packages :: "string \<Rightarrow> py_error + package_spec option" where
  "bundle_packages package =
     (if package = ''gallery_dl.extractor'' then Inr (Some extractor_spec) else Inr None)"

definition env_ok :: env where
  "env_ok = \<lparr>find_spec = bundle_packages,
             loader_data = [''/app/gallery_dl/extractor/2ch.py'' \<mapsto> ''x = 1''],
             gettempdir = Inr ''/tmp'',
             mkdir_errno = (\<lambda>d. None), open_errno = (\<lambda>p. None),
             write_capacity = (\<lambda>p. None), clock = 1700000000,
             extension_suffixes = [''.so''], check_hash_based_pycs = Check_default,
             source_hash = length, exec_error = (\<lambda>w n c. None)\<rparr>"

definition world0 :: world where
  "world0 = \<lparr>dirs = {''/tmp''}, files = Map.empty, mtimes = Map.empty,
             pycache = Map.empty, sys_modules = Map.empty\<rparr>"

text \<open>
  The same machine with a bundle that has the package and not the file, with one that
  ships the file empty, with one whose file does not compile, with a device that takes
  three bytes, and with a file whose code raises when its name is already registered.
\<close>

definition env_without :: env where
  "env_without = env_ok\<lparr>loader_data := Map.empty\<rparr>"

definition env_empty_file :: env where
  "env_empty_file = env_ok\<lparr>loader_data := [''/app/gallery_dl/extractor/2ch.py'' \<mapsto> []]\<rparr>"

definition env_bad_code :: env where
  "env_bad_code = env_ok\<lparr>exec_error := (\<lambda>w name code. Some ''SyntaxError'')\<rparr>"

definition env_disk_full :: env where
  "env_disk_full = env_ok\<lparr>write_capacity := (\<lambda>p. Some 3)\<rparr>"

definition env_once :: env where
  "env_once = env_ok\<lparr>exec_error :=
     (\<lambda>w name code. if sys_modules w name = None then None else Some ''RuntimeError'')\<rparr>"

section \<open>The build-time declarator (hook-gallery_dl.py)\<close>

text \<open>
  The hook is a module of two assignments. \<^verbatim>\<open>hiddenimports\<close> is the sum of four calls
  of \<^verbatim>\<open>collect_submodules\<close>, \<^verbatim>\<open>datas\<close> is one call of \<^verbatim>\<open>collect_data_files\<close>.
  The hook is modelled from its source. Both helpers belong to the packaging tool and not
  to this repository: what they return, and the installed library they read, are modelled
  from section 4.1 of the specification. Build-time paths are lists of components.
\<close>

subsection \<open>The installed library\<close>

type_synonym fpath = "string list"

datatype pymod = Module string | Package string "pymod list"

fun mod_name :: "pymod \<Rightarrow> string" where
  "mod_name (Module n) = n"
| "mod_name (Package n kids) = n"

record distribution =
  installed_at :: fpath
  shipped :: "(fpath \<times> bytes) list"

text \<open>
  Modelled from the spec: the build machine the helpers read. \<open>importable\<close> holds the
  top-level modules and packages that can be imported at build time, each package with
  the modules and packages inside it; \<open>installed\<close> gives, for a top-level package that
  is installed, where it is and the files it ships (paths relative to that place).
\<close>

record build_env =
  importable :: "pymod list"
  installed :: "string \<rightharpoonup> distribution"

record hook_result =
  hiddenimports :: "string list"
  datas :: "(fpath \<times> fpath) list"

text \<open>A dotted name as its components, as \<^verbatim>\<open>name.split('.')\<close> gives them.\<close>

fun split_dots :: "string \<Rightarrow> string list" where
  "split_dots [] = [[]]"
| "split_dots (c # cs) =
     (if c = CHR ''.'' then [] # split_dots cs
      else (case split_dots cs of
              [] \<Rightarrow> [[c]]
            | x # xs \<Rightarrow> (c # x) # xs))"

text \<open>
  Modelled from the spec: import by dotted name. Each component but the last must name
  a package; a name that leads nowhere is not importable.
\<close>

fun resolve :: "pymod list \<Rightarrow> string list \<Rightarrow> pymod option" where
  "resolve ms [] = None"
| "resolve ms [n] = find (\<lambda>m. mod_name m = n) ms"
| "resolve ms (n # n' # ns) =
     (case find (\<lambda>m. mod_name m = n) ms of
        Some (Package k kids) \<Rightarrow> resolve kids (n' # ns)
      | Some (Module k) \<Rightarrow> None
      | None \<Rightarrow> None)"

subsection \<open>The helpers of the packaging tool\<close>

text \<open>
  Modelled from the spec: the recursive package walk of \<^verbatim>\<open>collect_submodules\<close>. A
  module or package inside the package named \<open>pfx\<close>, and everything below it, by
  dotted name.
\<close>

fun submodules :: "string \<Rightarrow> pymod \<Rightarrow> string list" where
  "submodules pfx (Module n) = [pfx @ ''.'' @ n]"
| "submodules pfx (Package n kids) =
     (pfx @ ''.'' @ n) # concat (map (submodules (pfx @ ''.'' @ n)) kids)"

text \<open>
  Modelled from the spec: \<^verbatim>\<open>collect_submodules\<close> of the packaging tool, which is not
  part of the repository. Section 4.1: it enumerates every submodule reachable under
  the package by a recursive package walk; a package with no submodules gives the
  empty sequence and no error; a library that is not installed or not importable makes
  the enumeration fail.
\<close>

definition collect_submodules :: "build_env \<Rightarrow> string \<Rightarrow> py_error + string list" where
  "collect_submodules env package =
     (case resolve (importable env) (split_dots package) of
        None \<Rightarrow> Inl (ImportError package)
      | Some (Module n) \<Rightarrow> Inr []
      | Some (Package n kids) \<Rightarrow> Inr (concat (map (submodules package) kids)))"

definition is_py_file :: "fpath \<Rightarrow> bool" where
  "is_py_file rel = (rel \<noteq> [] \<and> suffix ''.py'' (last rel))"

text \<open>
  Modelled from the spec: \<^verbatim>\<open>collect_data_files\<close> of the packaging tool, which is not
  part of the repository. Section 4.1: it enumerates every file shipped inside the
  installed location of the library, source files too when they are asked for, and
  returns the pairs of source and destination, the destination keeping the path relative
  to the library; a library that is not installed makes the enumeration fail.
\<close>

definition collect_data_files ::
  "build_env \<Rightarrow> string \<Rightarrow> bool \<Rightarrow> py_error + (fpath \<times> fpath) list" where
  "collect_data_files env package include_py_files =
     (case installed env package of
        None \<Rightarrow> Inl (ImportError package)
      | Some d \<Rightarrow>
          Inr (map (\<lambda>(rel, content). (installed_at d @ rel, split_dots package @ rel))
                 (filter (\<lambda>(rel, content). include_py_files \<or> \<not> is_py_file rel)
                    (shipped d))))"

subsection \<open>The hook\<close>

text \<open>
  Lines 4 to 11 of the hook, evaluated top to bottom. Nothing is caught: the first
  helper call that raises ends the evaluation.
\<close>

definition hook_gallery_dl :: "build_env \<Rightarrow> py_error + hook_result" where
  "hook_gallery_dl env =
     (case collect_submodules env ''gallery_dl.extractor'' of
        Inl e \<Rightarrow> Inl e
      | Inr extractor \<Rightarrow>
     (case collect_submodules env ''gallery_dl.downloader'' of
        Inl e \<Rightarrow> Inl e
      | Inr downloader \<Rightarrow>
     (case collect_submodules env ''gallery_dl.postprocessor'' of
        Inl e \<Rightarrow> Inl e
      | Inr postprocessor \<Rightarrow>
     (case collect_submodules env ''gallery_dl.output'' of
        Inl e \<Rightarrow> Inl e
      | Inr output \<Rightarrow>
     (case collect_data_files env ''gallery_dl'' True of
        Inl e \<Rightarrow> Inl e
      | Inr ds \<Rightarrow>
          Inr \<lparr>hiddenimports = extractor @ downloader @ postprocessor @ output,
               datas = ds\<rparr>)))))"

subsection \<open>What the specification measures the manifests against\<close>

text \<open>The plugin packages the specification calls configured, in the order of the hook.\<close>

definition plugin_packages :: "string list" where
  "plugin_packages =
     [''gallery_dl.extractor'', ''gallery_dl.downloader'',
      ''gallery_dl.postprocessor'', ''gallery_dl.output'']"

text \<open>
  The submodules present under a package, as a relation: a member of the package, or a
  submodule present under a package that is a member.
\<close>

inductive present_under :: "string \<Rightarrow> pymod list \<Rightarrow> string \<Rightarrow> bool" where
  member: "m \<in> set kids \<Longrightarrow> present_under pfx kids (pfx @ ''.'' @ mod_name m)"
| deeper: "Package n ks \<in> set kids \<Longrightarrow> present_under (pfx @ ''.'' @ n) ks x
           \<Longrightarrow> present_under pfx kids x"

definition importable_under :: "build_env \<Rightarrow> string \<Rightarrow> string \<Rightarrow> bool" where
  "importable_under env package x =
     (case resolve (importable env) (split_dots package) of
        Some (Package n kids) \<Rightarrow> present_under package kids x
      | Some (Module n) \<Rightarrow> False
      | None \<Rightarrow> False)"

text \<open>
  Modelled from the spec: the files of the build machine that belong to a distribution,
  by absolute path; and the copy the packaging tool makes of a manifest, pair by pair,
  into a bundle (section 8: the files are copied to the destination paths).
\<close>

definition installed_tree :: "distribution \<Rightarrow> (fpath \<rightharpoonup> bytes)" where
  "installed_tree d = map_of (map (\<lambda>(rel, content). (installed_at d @ rel, content)) (shipped d))"

fun copy_datas ::
  "(fpath \<rightharpoonup> bytes) \<Rightarrow> (fpath \<times> fpath) list \<Rightarrow> (fpath \<rightharpoonup> bytes) \<Rightarrow> (fpath \<rightharpoonup> bytes)" where
  "copy_datas fs [] bundle = bundle"
| "copy_datas fs ((src, dst) # rest) bundle =
     copy_datas fs rest (case fs src of None \<Rightarrow> bundle | Some content \<Rightarrow> bundle(dst \<mapsto> content))"

subsection \<open>A concrete installation\<close>

definition gallery_dl_dist :: distribution where
  "gallery_dl_dist =
     \<lparr>installed_at = [''site-packages'', ''gallery_dl''],
      shipped = [([''__init__.py''], []),
                 ([''extractor'', ''2ch.py''], ''x = 1''),
                 ([''output.py''], ''y = 2'')]\<rparr>"

definition site_ok :: build_env where
  "site_ok =
     \<lparr>importable =
        [Package ''gallery_dl''
           [Package ''extractor'' [Module ''2ch'', Module ''common''],
            Package ''downloader'' [Module ''http''],
            Package ''postprocessor'' [],
            Module ''output'']],
      installed = [''gallery_dl'' \<mapsto> gallery_dl_dist]\<rparr>"

definition site_empty :: build_env where
  "site_empty = \<lparr>importable = [], installed = Map.empty\<rparr>"

section \<open>Facts about the filesystem operations\<close>

lemmas example_defs =
  env_ok_def bundle_packages_def extractor_spec_def world0_def env_without_def
  env_empty_file_def env_bad_code_def env_disk_full_def env_once_def

lemma suffix_path_join: "suffix b (path_join a b)"
  by (simp add: path_join_def suffix_def)

lemma tmp_paths:
  "extractors_tmpdir ''/tmp'' = ''/tmp/gallery_dl_pyinst_extractors''"
  "preload_dst ''/tmp'' ''2ch.py'' = ''/tmp/gallery_dl_pyinst_extractors/2ch.py''"
  "ancestors ''/tmp/gallery_dl_pyinst_extractors'' = [''/tmp'']"
  "dirname ''/tmp/gallery_dl_pyinst_extractors/2ch.py'' = ''/tmp/gallery_dl_pyinst_extractors''"
  by (simp_all add: extractors_tmpdir_def preload_dst_def path_join_def ancestors_def
        dirname_def suffix_to_prefix)

lemma bundle_resource:
  "resource_name ''/app/gallery_dl/extractor/__init__.py'' ''2ch.py''
     = ''/app/gallery_dl/extractor/2ch.py''"
  by (simp add: resource_name_def dirname_def path_join_def suffix_to_prefix)

lemma bundle_data:
  "packaged_data env_ok ''gallery_dl.extractor'' ''2ch.py'' = Inr (Some ''x = 1'')"
  "packaged_data env_empty_file ''gallery_dl.extractor'' ''2ch.py'' = Inr (Some [])"
  "packaged_data env_without ''gallery_dl.extractor'' ''2ch.py'' = Inl (OSError ''ENOENT'')"
  "packaged_data env_bad_code ''gallery_dl.extractor'' ''2ch.py'' = Inr (Some ''x = 1'')"
  "packaged_data env_disk_full ''gallery_dl.extractor'' ''2ch.py'' = Inr (Some ''x = 1'')"
  "packaged_data env_once ''gallery_dl.extractor'' ''2ch.py'' = Inr (Some ''x = 1'')"
  by (simp_all add: packaged_data_def example_defs bundle_resource)











lemma write_file_ok:
  assumes "write_file env dst data w = (Inr u, w')"
  shows "dst \<notin> dirs w \<and> (dirname dst = [] \<or> dirname dst \<in> dirs w) \<and>
         open_errno env dst = None \<and>
         (\<forall>k. write_capacity env dst = Some k \<longrightarrow> length data \<le> k) \<and>
         w' = w\<lparr>files := (files w)(dst \<mapsto> data), mtimes := (mtimes w)(dst \<mapsto> clock env)\<rparr>"
  using assms by (auto simp: write_file_def split: if_splits option.splits)


section \<open>Facts about the steps of the shim\<close>


lemma materialize_steps:
  assumes "materialize env relpath data w = (Inr dst, w')"
  shows "\<exists>tmp u1 w1 u2 w2 u3. gettempdir env = Inr tmp \<and> dst = preload_dst tmp relpath \<and>
           makedirs env (extractors_tmpdir tmp) w = (Inr u1, w1) \<and>
           makedirs env (dirname dst) w1 = (Inr u2, w2) \<and>
           write_file env dst data w2 = (Inr u3, w')"
  using assms unfolding materialize_def Let_def preload_dst_def extractors_tmpdir_def
  by (auto split: sum.splits prod.splits)

lemma materialize_ok:
  assumes "materialize env relpath data w = (Inr dst, w')"
  shows "(\<exists>tmp. gettempdir env = Inr tmp \<and> dst = preload_dst tmp relpath) \<and>
         files w' dst = Some data"
proof -
  from materialize_steps [OF assms] obtain tmp w2 u3 where
    "gettempdir env = Inr tmp" "dst = preload_dst tmp relpath"
    "write_file env dst data w2 = (Inr u3, w')"
    by blast
  with write_file_ok [of env dst data w2 u3 w'] show ?thesis by auto
qed

lemma spec_for_py:
  assumes "suffix ''.py'' loc"
  shows "\<exists>l. spec_from_file_location env name loc
           = Some \<lparr>s_name = name, s_origin = loc, s_loader = Some l\<rparr>"
  using assms
  by (auto simp: spec_from_file_location_def supported_file_loaders_def)









lemmas shim_eval =
  rthook_gallery_dl_def preload_extractor_def materialize_def load_module_def
  makedirs_def mkdir_def write_file_def spec_from_file_location_def
  supported_file_loaders_def module_from_spec_def exec_module_def get_code_def Let_def
  path_join_def ancestors_def dirname_def suffix_to_prefix

section \<open>Properties of the shim\<close>

text \<open>
  C1. The claim promises the registration for every bundle that holds \<^verbatim>\<open>2ch.py\<close>. The
  code does not keep it for the bundle that holds \<^verbatim>\<open>2ch.py\<close> with no bytes: the
  resource is found, the fetch answers the empty byte string, line 7 takes it for a
  missing resource (the comment of line 8 reads "not found in the bundle"), the hook
  returns normally and the name is not in \<^verbatim>\<open>sys.modules\<close>.
\<close>

theorem empty_2ch_not_registered:
  "packaged_data env_empty_file ''gallery_dl.extractor'' ''2ch.py'' = Inr (Some []) \<and>
   fst (rthook_gallery_dl env_empty_file world0) = Inr () \<and>
   sys_modules (snd (rthook_gallery_dl env_empty_file world0)) ''gallery_dl.extractor.2ch''
     = None"
  by (simp add: bundle_data rthook_gallery_dl_def preload_extractor_def) (simp add: world0_def)

text \<open>
  C2. The claim promises a normal return for every bundle that does not hold the
  resource. The code does not keep it for the bundle that has the package
  \<^verbatim>\<open>gallery_dl.extractor\<close> and not the file \<^verbatim>\<open>2ch.py\<close>: the loader is asked for a
  file that is not there, \<^verbatim>\<open>pkgutil.get_data\<close> raises \<^verbatim>\<open>FileNotFoundError\<close>, line 6
  is not guarded, and the hook ends in that exception. Line 7 is never reached, though
  the comment of line 8 means this very case to be ignored.
\<close>

theorem missing_file_raises:
  "find_spec env_without ''gallery_dl.extractor'' = Inr (Some extractor_spec) \<and>
   loader_data env_without ''/app/gallery_dl/extractor/2ch.py'' = None \<and>
   packaged_data env_without ''gallery_dl.extractor'' ''2ch.py'' = Inl (OSError ''ENOENT'') \<and>
   rthook_gallery_dl env_without world0 = (Inl (OSError ''ENOENT''), world0)"
  by (simp add: bundle_data rthook_gallery_dl_def preload_extractor_def)
     (simp add: example_defs)

text \<open>
  When the fetch answers \<^verbatim>\<open>None\<close> (the package is not found, its loader cannot read
  data, or it has no \<^verbatim>\<open>__file__\<close>), the shim returns normally and leaves the world as
  it was.
\<close>

lemma fetch_none_is_noop:
  assumes "packaged_data env ''gallery_dl.extractor'' relpath = Inr None"
  shows "preload_extractor env modname relpath w = (Inr (), w)"
  using assms by (simp add: preload_extractor_def)

text \<open>
  C4. With the resource found (fetched with at least one byte), nothing that fails
  afterwards is caught. Step by step: a failure to find the temporary directory, to
  create either directory or to write the file; a location no loader takes (line 16 then
  raises \<^verbatim>\<open>AttributeError\<close>); an exception while the module runs. Each leaves the shim
  as that very exception, with the world as the failing step left it. Conversely the
  shim returns normally only when the file was written and the module loaded.
\<close>

theorem failures_propagate:
  assumes found: "packaged_data env ''gallery_dl.extractor'' relpath = Inr (Some data)"
    and nonempty: "data \<noteq> []"
  shows
    "(\<forall>e. gettempdir env = Inl e
        \<longrightarrow> preload_extractor env modname relpath w = (Inl e, w)) \<and>
     (\<forall>tmp e w1. gettempdir env = Inr tmp \<and>
        makedirs env (extractors_tmpdir tmp) w = (Inl e, w1)
        \<longrightarrow> preload_extractor env modname relpath w = (Inl e, w1)) \<and>
     (\<forall>tmp u1 w1 e w2. gettempdir env = Inr tmp \<and>
        makedirs env (extractors_tmpdir tmp) w = (Inr u1, w1) \<and>
        makedirs env (dirname (preload_dst tmp relpath)) w1 = (Inl e, w2)
        \<longrightarrow> preload_extractor env modname relpath w = (Inl e, w2)) \<and>
     (\<forall>tmp u1 w1 u2 w2 e w3. gettempdir env = Inr tmp \<and>
        makedirs env (extractors_tmpdir tmp) w = (Inr u1, w1) \<and>
        makedirs env (dirname (preload_dst tmp relpath)) w1 = (Inr u2, w2) \<and>
        write_file env (preload_dst tmp relpath) data w2 = (Inl e, w3)
        \<longrightarrow> preload_extractor env modname relpath w = (Inl e, w3)) \<and>
     (\<forall>dst w3. materialize env relpath data w = (Inr dst, w3) \<and>
        spec_from_file_location env modname dst = None
        \<longrightarrow> preload_extractor env modname relpath w = (Inl AttributeError, w3)) \<and>
     (\<forall>dst w3 s l m e. materialize env relpath data w = (Inr dst, w3) \<and>
        spec_from_file_location env modname dst = Some s \<and> s_loader s = Some l \<and>
        module_from_spec (Some s) = Inr m \<and> exec_module env w3 l m = Inl e
        \<longrightarrow> preload_extractor env modname relpath w = (Inl e, w3)) \<and>
     (\<forall>w'. preload_extractor env modname relpath w = (Inr (), w')
        \<longrightarrow> (\<exists>dst w3 m. materialize env relpath data w = (Inr dst, w3) \<and>
               load_module env modname dst w3 = Inr m))"
proof (intro conjI allI impI)
  fix e assume "gettempdir env = Inl e"
  with found nonempty show "preload_extractor env modname relpath w = (Inl e, w)"
    by (simp add: preload_extractor_def materialize_def)
next
  fix tmp e w1
  assume "gettempdir env = Inr tmp \<and> makedirs env (extractors_tmpdir tmp) w = (Inl e, w1)"
  with found nonempty show "preload_extractor env modname relpath w = (Inl e, w1)"
    by (simp add: preload_extractor_def materialize_def extractors_tmpdir_def)
next
  fix tmp u1 w1 e w2
  assume "gettempdir env = Inr tmp \<and>
    makedirs env (extractors_tmpdir tmp) w = (Inr u1, w1) \<and>
    makedirs env (dirname (preload_dst tmp relpath)) w1 = (Inl e, w2)"
  with found nonempty show "preload_extractor env modname relpath w = (Inl e, w2)"
    by (simp add: preload_extractor_def materialize_def extractors_tmpdir_def preload_dst_def)
next
  fix tmp u1 w1 u2 w2 e w3
  assume "gettempdir env = Inr tmp \<and>
    makedirs env (extractors_tmpdir tmp) w = (Inr u1, w1) \<and>
    makedirs env (dirname (preload_dst tmp relpath)) w1 = (Inr u2, w2) \<and>
    write_file env (preload_dst tmp relpath) data w2 = (Inl e, w3)"
  with found nonempty show "preload_extractor env modname relpath w = (Inl e, w3)"
    by (simp add: preload_extractor_def materialize_def extractors_tmpdir_def preload_dst_def)
next
  fix dst w3
  assume "materialize env relpath data w = (Inr dst, w3) \<and>
    spec_from_file_location env modname dst = None"
  with found nonempty show "preload_extractor env modname relpath w = (Inl AttributeError, w3)"
    by (simp add: preload_extractor_def load_module_def module_from_spec_def)
next
  fix dst w3 s l m e
  assume "materialize env relpath data w = (Inr dst, w3) \<and>
    spec_from_file_location env modname dst = Some s \<and> s_loader s = Some l \<and>
    module_from_spec (Some s) = Inr m \<and> exec_module env w3 l m = Inl e"
  with found nonempty show "preload_extractor env modname relpath w = (Inl e, w3)"
    by (simp add: preload_extractor_def load_module_def)
next
  fix w' assume "preload_extractor env modname relpath w = (Inr (), w')"
  with found nonempty
  show "\<exists>dst w3 m. materialize env relpath data w = (Inr dst, w3) \<and>
          load_module env modname dst w3 = Inr m"
    by (auto simp: preload_extractor_def split: sum.splits prod.splits)
qed

theorem failures_propagate_witness:
  "packaged_data env_disk_full ''gallery_dl.extractor'' ''2ch.py'' = Inr (Some ''x = 1'') \<and>
   fst (write_file env_disk_full ''/tmp/gallery_dl_pyinst_extractors/2ch.py'' ''x = 1''
          (world0\<lparr>dirs := {''/tmp/gallery_dl_pyinst_extractors'', ''/tmp''}\<rparr>))
     = Inl (OSError ''ENOSPC'') \<and>
   fst (preload_extractor env_disk_full ''gallery_dl.extractor.2ch'' ''2ch.py'' world0)
     = Inl (OSError ''ENOSPC'')"
proof -
  let ?p = "''/tmp/gallery_dl_pyinst_extractors/2ch.py''"
  let ?w1 = "world0\<lparr>dirs := {''/tmp/gallery_dl_pyinst_extractors'', ''/tmp''}\<rparr>"
  let ?w3 = "?w1\<lparr>files := (files ?w1)(?p \<mapsto> ''x =''),
                  mtimes := (mtimes ?w1)(?p \<mapsto> clock env_disk_full)\<rparr>"
  have h1: "packaged_data env_disk_full ''gallery_dl.extractor'' ''2ch.py''
              = Inr (Some ''x = 1'')"
    by (rule bundle_data)
  have h2: "''x = 1'' \<noteq> []" by simp
  have t: "gettempdir env_disk_full = Inr ''/tmp''" by (simp add: example_defs)
  have m1: "makedirs env_disk_full (extractors_tmpdir ''/tmp'') world0 = (Inr (), ?w1)"
    by (simp add: example_defs tmp_paths makedirs_def mkdir_def)
  have m2: "makedirs env_disk_full (dirname (preload_dst ''/tmp'' ''2ch.py'')) ?w1
              = (Inr (), ?w1)"
    by (simp add: example_defs tmp_paths makedirs_def)
  have m3: "write_file env_disk_full (preload_dst ''/tmp'' ''2ch.py'') ''x = 1'' ?w1
              = (Inl (OSError ''ENOSPC''), ?w3)"
    by (simp add: example_defs tmp_paths write_file_def)
  from failures_propagate [OF h1 h2, of "''gallery_dl.extractor.2ch''" world0] t m1 m2 m3
  have "preload_extractor env_disk_full ''gallery_dl.extractor.2ch'' ''2ch.py'' world0
          = (Inl (OSError ''ENOSPC''), ?w3)"
    by blast
  with h1 m3 show ?thesis by (simp add: tmp_paths)
qed




text \<open>
  C8. A resource that is in the bundle with no bytes is treated like a missing one: the
  test of line 7 is \<^verbatim>\<open>not data\<close>, which holds for the empty byte string as it holds
  for \<^verbatim>\<open>None\<close>. The shim returns at once, normally, and the world is as it was: no file
  is written and nothing is registered.
\<close>

theorem empty_resource_is_noop:
  assumes "packaged_data env ''gallery_dl.extractor'' relpath = Inr (Some [])"
  shows "preload_extractor env modname relpath w = (Inr (), w)"
  using assms by (simp add: preload_extractor_def)

theorem empty_resource_is_noop_witness:
  "packaged_data env_empty_file ''gallery_dl.extractor'' ''2ch.py'' = Inr (Some []) \<and>
   preload_extractor env_empty_file ''gallery_dl.extractor.2ch'' ''2ch.py'' world0
     = (Inr (), world0)"
proof -
  have h: "packaged_data env_empty_file ''gallery_dl.extractor'' ''2ch.py'' = Inr (Some [])"
    by (rule bundle_data)
  from h empty_resource_is_noop [OF h] show ?thesis by simp
qed



text \<open>
  C10. For a relative path that ends in \<^verbatim>\<open>.py\<close>, once the resource has been found and
  written, the path of the written file ends in \<^verbatim>\<open>.py\<close> too, so
  \<^verbatim>\<open>spec_from_file_location\<close> returns a spec and the spec has a loader. The assertion of
  line 17 holds: neither the load step nor the shim ends in \<^verbatim>\<open>AssertionError\<close>.
\<close>

theorem py_suffix_gives_loader:
  assumes found: "packaged_data env ''gallery_dl.extractor'' relpath = Inr (Some data)"
    and nonempty: "data \<noteq> []"
    and py: "suffix ''.py'' relpath"
    and written: "materialize env relpath data w = (Inr dst, w1)"
  shows "(\<exists>s l. spec_from_file_location env modname dst = Some s \<and> s_loader s = Some l) \<and>
         load_module env modname dst w1 \<noteq> Inl AssertionError \<and>
         fst (preload_extractor env modname relpath w) \<noteq> Inl AssertionError"
proof -
  from materialize_ok [OF written] obtain tmp where dst: "dst = preload_dst tmp relpath"
    by blast
  have "suffix relpath dst" unfolding dst preload_dst_def by (rule suffix_path_join)
  with py have "suffix ''.py'' dst" by (rule suffix_order.trans)
  from spec_for_py [OF this] obtain l where
    sp: "spec_from_file_location env modname dst
           = Some \<lparr>s_name = modname, s_origin = dst, s_loader = Some l\<rparr>"
    by blast
  have ld: "load_module env modname dst w1 \<noteq> Inl AssertionError"
    by (simp add: load_module_def sp module_from_spec_def exec_module_def Let_def
          split: option.splits)
  from found nonempty written ld
  have "fst (preload_extractor env modname relpath w) \<noteq> Inl AssertionError"
    by (auto simp: preload_extractor_def split: sum.splits)
  with sp ld show ?thesis by simp
qed

theorem py_suffix_gives_loader_witness:
  "suffix ''.py'' ''2ch.py'' \<and>
   fst (materialize env_ok ''2ch.py'' ''x = 1'' world0)
     = Inr ''/tmp/gallery_dl_pyinst_extractors/2ch.py'' \<and>
   (\<exists>s l. spec_from_file_location env_ok ''gallery_dl.extractor.2ch''
             ''/tmp/gallery_dl_pyinst_extractors/2ch.py'' = Some s \<and> s_loader s = Some l) \<and>
   fst (preload_extractor env_ok ''gallery_dl.extractor.2ch'' ''2ch.py'' world0)
     \<noteq> Inl AssertionError"
proof -
  let ?mat = "materialize env_ok ''2ch.py'' ''x = 1'' world0"
  have h1: "packaged_data env_ok ''gallery_dl.extractor'' ''2ch.py'' = Inr (Some ''x = 1'')"
    by (rule bundle_data)
  have h2: "''x = 1'' \<noteq> []" by simp
  have h3: "suffix ''.py'' ''2ch.py''" by (simp add: suffix_to_prefix)
  have m: "fst ?mat = Inr ''/tmp/gallery_dl_pyinst_extractors/2ch.py''"
    by (simp add: example_defs shim_eval)
  then have h4: "?mat = (Inr ''/tmp/gallery_dl_pyinst_extractors/2ch.py'', snd ?mat)"
    by (simp add: prod_eq_iff)
  from py_suffix_gives_loader [OF h1 h2 h3 h4, of "''gallery_dl.extractor.2ch''"] h3 m
  show ?thesis by simp
qed

section \<open>Facts about the package walk and the copy\<close>

lemmas site_defs = site_ok_def site_empty_def gallery_dl_dist_def

lemmas hook_eval =
  hook_gallery_dl_def collect_submodules_def collect_data_files_def plugin_packages_def

lemma walk_is_present:
  "x \<in> set (submodules pfx m) \<Longrightarrow> m \<in> set kids \<Longrightarrow> present_under pfx kids x"
proof (induction m arbitrary: pfx kids x)
  case (Module n)
  from Module.prems(1) have x: "x = pfx @ ''.'' @ mod_name (Module n)" by simp
  show ?case unfolding x using Module.prems(2) by (rule present_under.member)
next
  case (Package n ks)
  from Package.prems(1)
  have "x = pfx @ ''.'' @ n \<or> (\<exists>k \<in> set ks. x \<in> set (submodules (pfx @ ''.'' @ n) k))"
    by auto
  then show ?case
  proof
    assume "x = pfx @ ''.'' @ n"
    then have x: "x = pfx @ ''.'' @ mod_name (Package n ks)" by simp
    show ?thesis unfolding x using Package.prems(2) by (rule present_under.member)
  next
    assume "\<exists>k \<in> set ks. x \<in> set (submodules (pfx @ ''.'' @ n) k)"
    then obtain k where k: "k \<in> set ks" "x \<in> set (submodules (pfx @ ''.'' @ n) k)"
      by blast
    from Package.IH [OF k(1) k(2) k(1)] have "present_under (pfx @ ''.'' @ n) ks x" .
    with Package.prems(2) show ?thesis by (rule present_under.deeper)
  qed
qed

lemma submodules_head: "pfx @ ''.'' @ mod_name m \<in> set (submodules pfx m)"
  by (cases m) simp_all

lemma in_walk:
  "m \<in> set kids \<Longrightarrow> x \<in> set (submodules pfx m)
     \<Longrightarrow> x \<in> set (concat (map (submodules pfx) kids))"
  by auto

lemma present_is_walked:
  "present_under pfx kids x \<Longrightarrow> x \<in> set (concat (map (submodules pfx) kids))"
proof (induction rule: present_under.induct)
  case (member m kids pfx)
  from member submodules_head [of pfx m] show ?case by (rule in_walk)
next
  case (deeper n ks kids pfx x)
  from deeper.IH have "x \<in> set (submodules pfx (Package n ks))" by simp
  with deeper.hyps(1) show ?case by (rule in_walk)
qed

lemma walk_exact:
  "set (concat (map (submodules pfx) kids)) = {x. present_under pfx kids x}"
proof (intro set_eqI iffI)
  fix x assume "x \<in> set (concat (map (submodules pfx) kids))"
  then obtain m where "m \<in> set kids" "x \<in> set (submodules pfx m)" by auto
  then have "present_under pfx kids x" by (rule walk_is_present [rotated])
  then show "x \<in> {x. present_under pfx kids x}" by simp
next
  fix x assume "x \<in> {x. present_under pfx kids x}"
  then show "x \<in> set (concat (map (submodules pfx) kids))"
    by (simp only: mem_Collect_eq present_is_walked)
qed

lemma present_has_prefix: "present_under pfx kids x \<Longrightarrow> prefix (pfx @ ''.'') x"
proof (induction rule: present_under.induct)
  case (member m kids pfx)
  show ?case by (simp add: prefix_def)
next
  case (deeper n ks kids pfx x)
  have "prefix (pfx @ ''.'') ((pfx @ ''.'' @ n) @ ''.'')" by (simp add: prefix_def)
  with deeper.IH show ?case by (rule prefix_order.trans [rotated])
qed

lemma collect_submodules_exact:
  assumes "collect_submodules env package = Inr xs"
  shows "set xs = {x. importable_under env package x}"
proof (cases "resolve (importable env) (split_dots package)")
  case None
  with assms show ?thesis by (simp add: collect_submodules_def)
next
  case (Some m)
  show ?thesis
  proof (cases m)
    case (Module n)
    with assms Some show ?thesis
      by (simp add: collect_submodules_def importable_under_def)
  next
    case (Package n kids)
    with assms Some have xs: "xs = concat (map (submodules package) kids)"
      by (simp add: collect_submodules_def)
    from Some Package
    have "importable_under env package x = present_under package kids x" for x
      by (simp add: importable_under_def)
    then show ?thesis unfolding xs walk_exact by simp
  qed
qed

lemma importable_has_prefix:
  "importable_under env package x \<Longrightarrow> prefix (package @ ''.'') x"
  by (auto simp: importable_under_def split: option.splits pymod.splits
        dest: present_has_prefix)

lemma installed_tree_at:
  "installed_tree d (installed_at d @ rel) = map_of (shipped d) rel"
proof -
  have "map_of (map (\<lambda>(rel, content). (loc @ rel, content)) xs) (loc @ rel) = map_of xs rel"
    for loc :: fpath and xs :: "(fpath \<times> bytes) list"
    by (induction xs) auto
  then show ?thesis by (simp add: installed_tree_def)
qed

lemma copy_datas_other:
  "\<forall>rel. p \<noteq> pkg # rel \<Longrightarrow>
     copy_datas fs (map (\<lambda>(rel, content). (loc @ rel, pkg # rel)) xs) b p = b p"
  by (induction xs arbitrary: b) (auto split: option.splits)

lemma copy_datas_at:
  assumes "\<forall>(rel', content) \<in> set xs. fs (loc @ rel') \<noteq> None"
  shows "copy_datas fs (map (\<lambda>(rel, content). (loc @ rel, pkg # rel)) xs) b (pkg # rel)
           = (if rel \<in> fst ` set xs then fs (loc @ rel) else b (pkg # rel))"
  using assms
proof (induction xs arbitrary: b)
  case Nil
  then show ?case by simp
next
  case (Cons entry xs)
  let ?g = "\<lambda>(rel, content). (loc @ rel, pkg # rel)"
  obtain rel' content where entry: "entry = (rel', content)" by (cases entry)
  from Cons.prems entry obtain c where c: "fs (loc @ rel') = Some c" by auto
  from Cons.prems have rest: "\<forall>(rel', content) \<in> set xs. fs (loc @ rel') \<noteq> None" by simp
  let ?b' = "b(pkg # rel' \<mapsto> c)"
  have step: "copy_datas fs (map ?g (entry # xs)) b (pkg # rel)
                = copy_datas fs (map ?g xs) ?b' (pkg # rel)"
    by (simp add: entry c)
  have ih: "copy_datas fs (map ?g xs) ?b' (pkg # rel)
              = (if rel \<in> fst ` set xs then fs (loc @ rel) else ?b' (pkg # rel))"
    by (rule Cons.IH [OF rest])
  show ?case
  proof (cases "rel = rel'")
    case True
    then have "?b' (pkg # rel) = fs (loc @ rel)" by (simp add: c)
    with step ih True show ?thesis by (simp add: entry)
  next
    case False
    then have "?b' (pkg # rel) = b (pkg # rel)" by simp
    with step ih False show ?thesis by (simp add: entry)
  qed
qed

text \<open>
  The hook evaluates exactly when each of the four plugin packages can be imported and
  the library is installed; any other machine ends the evaluation in an exception.
\<close>

lemma collect_submodules_answers:
  "(\<exists>xs. collect_submodules env package = Inr xs)
     \<longleftrightarrow> resolve (importable env) (split_dots package) \<noteq> None"
  by (auto simp: collect_submodules_def split: option.splits pymod.splits)

lemma collect_data_files_answers:
  "(\<exists>ds. collect_data_files env package include_py_files = Inr ds)
     \<longleftrightarrow> installed env package \<noteq> None"
  by (auto simp: collect_data_files_def split: option.splits)

lemma hook_answers_iff:
  "(\<exists>r. hook_gallery_dl env = Inr r) \<longleftrightarrow>
     (\<forall>p \<in> set plugin_packages. resolve (importable env) (split_dots p) \<noteq> None) \<and>
     installed env ''gallery_dl'' \<noteq> None"
proof
  assume "\<exists>r. hook_gallery_dl env = Inr r"
  then have "(\<exists>a. collect_submodules env ''gallery_dl.extractor'' = Inr a) \<and>
      (\<exists>b. collect_submodules env ''gallery_dl.downloader'' = Inr b) \<and>
      (\<exists>c. collect_submodules env ''gallery_dl.postprocessor'' = Inr c) \<and>
      (\<exists>d. collect_submodules env ''gallery_dl.output'' = Inr d) \<and>
      (\<exists>ds. collect_data_files env ''gallery_dl'' True = Inr ds)"
    by (auto simp: hook_gallery_dl_def split: sum.splits)
  then show "(\<forall>p \<in> set plugin_packages. resolve (importable env) (split_dots p) \<noteq> None) \<and>
      installed env ''gallery_dl'' \<noteq> None"
    unfolding collect_submodules_answers collect_data_files_answers
    by (simp add: plugin_packages_def)
next
  assume "(\<forall>p \<in> set plugin_packages. resolve (importable env) (split_dots p) \<noteq> None) \<and>
      installed env ''gallery_dl'' \<noteq> None"
  then have "resolve (importable env) (split_dots ''gallery_dl.extractor'') \<noteq> None"
    "resolve (importable env) (split_dots ''gallery_dl.downloader'') \<noteq> None"
    "resolve (importable env) (split_dots ''gallery_dl.postprocessor'') \<noteq> None"
    "resolve (importable env) (split_dots ''gallery_dl.output'') \<noteq> None"
    "installed env ''gallery_dl'' \<noteq> None"
    by (simp_all add: plugin_packages_def)
  then have "\<exists>a. collect_submodules env ''gallery_dl.extractor'' = Inr a"
    "\<exists>b. collect_submodules env ''gallery_dl.downloader'' = Inr b"
    "\<exists>c. collect_submodules env ''gallery_dl.postprocessor'' = Inr c"
    "\<exists>d. collect_submodules env ''gallery_dl.output'' = Inr d"
    "\<exists>ds. collect_data_files env ''gallery_dl'' True = Inr ds"
    by (simp_all only: collect_submodules_answers collect_data_files_answers
        not_False_eq_True)
  then obtain a b c d ds where
    "collect_submodules env ''gallery_dl.extractor'' = Inr a"
    "collect_submodules env ''gallery_dl.downloader'' = Inr b"
    "collect_submodules env ''gallery_dl.postprocessor'' = Inr c"
    "collect_submodules env ''gallery_dl.output'' = Inr d"
    "collect_data_files env ''gallery_dl'' True = Inr ds"
    by blast
  then show "\<exists>r. hook_gallery_dl env = Inr r" by (simp add: hook_gallery_dl_def)
qed

section \<open>Properties of the declarator\<close>

text \<open>
  C3. The hook evaluates exactly when each of the four plugin packages can be imported
  and the library is installed. When it does, \<^verbatim>\<open>hiddenimports\<close> is the enumeration of
  \<^verbatim>\<open>gallery_dl.extractor\<close>, then that of \<^verbatim>\<open>gallery_dl.downloader\<close>, then that of
  \<^verbatim>\<open>gallery_dl.postprocessor\<close>, then that of \<^verbatim>\<open>gallery_dl.output\<close>, in this order.
  Each of the four enumerations holds exactly the submodules present under its package;
  so no submodule of a configured package is missing from \<^verbatim>\<open>hiddenimports\<close>, and every
  name in it is a submodule of a configured package and starts with that package's name
  and a dot.
\<close>

theorem hiddenimports_exact:
  "((\<exists>r. hook_gallery_dl env = Inr r) \<longleftrightarrow>
      (\<forall>p \<in> set plugin_packages. resolve (importable env) (split_dots p) \<noteq> None) \<and>
      installed env ''gallery_dl'' \<noteq> None) \<and>
   (\<forall>r. hook_gallery_dl env = Inr r \<longrightarrow>
      (\<exists>a b c d.
         collect_submodules env ''gallery_dl.extractor'' = Inr a \<and>
         collect_submodules env ''gallery_dl.downloader'' = Inr b \<and>
         collect_submodules env ''gallery_dl.postprocessor'' = Inr c \<and>
         collect_submodules env ''gallery_dl.output'' = Inr d \<and>
         hiddenimports r = a @ b @ c @ d) \<and>
      (\<forall>p \<in> set plugin_packages. \<exists>xs. collect_submodules env p = Inr xs \<and>
         set xs = {x. importable_under env p x}) \<and>
      (\<forall>p \<in> set plugin_packages. \<forall>x. importable_under env p x
         \<longrightarrow> x \<in> set (hiddenimports r)) \<and>
      (\<forall>x \<in> set (hiddenimports r). \<exists>p \<in> set plugin_packages.
         importable_under env p x \<and> prefix (p @ ''.'') x))"
proof (rule conjI, rule hook_answers_iff, rule allI, rule impI)
  fix r assume h: "hook_gallery_dl env = Inr r"
  from h obtain a b c d where
    a: "collect_submodules env ''gallery_dl.extractor'' = Inr a" and
    b: "collect_submodules env ''gallery_dl.downloader'' = Inr b" and
    c: "collect_submodules env ''gallery_dl.postprocessor'' = Inr c" and
    d: "collect_submodules env ''gallery_dl.output'' = Inr d" and
    r: "hiddenimports r = a @ b @ c @ d"
    by (auto simp: hook_gallery_dl_def split: sum.splits)
  note sets = collect_submodules_exact [OF a] collect_submodules_exact [OF b]
    collect_submodules_exact [OF c] collect_submodules_exact [OF d]
  have each: "\<forall>p \<in> set plugin_packages. \<exists>xs. collect_submodules env p = Inr xs \<and>
      set xs = {x. importable_under env p x}"
    using a b c d sets by (simp add: plugin_packages_def)
  have all: "set (hiddenimports r) = {x. \<exists>p \<in> set plugin_packages. importable_under env p x}"
    using sets by (auto simp: r plugin_packages_def)
  have no_omission: "\<forall>p \<in> set plugin_packages. \<forall>x. importable_under env p x
      \<longrightarrow> x \<in> set (hiddenimports r)"
    using all by blast
  have inside: "\<forall>x \<in> set (hiddenimports r). \<exists>p \<in> set plugin_packages.
      importable_under env p x \<and> prefix (p @ ''.'') x"
    using all importable_has_prefix by blast
  from a b c d r each no_omission inside
  show "(\<exists>a b c d.
         collect_submodules env ''gallery_dl.extractor'' = Inr a \<and>
         collect_submodules env ''gallery_dl.downloader'' = Inr b \<and>
         collect_submodules env ''gallery_dl.postprocessor'' = Inr c \<and>
         collect_submodules env ''gallery_dl.output'' = Inr d \<and>
         hiddenimports r = a @ b @ c @ d) \<and>
      (\<forall>p \<in> set plugin_packages. \<exists>xs. collect_submodules env p = Inr xs \<and>
         set xs = {x. importable_under env p x}) \<and>
      (\<forall>p \<in> set plugin_packages. \<forall>x. importable_under env p x
         \<longrightarrow> x \<in> set (hiddenimports r)) \<and>
      (\<forall>x \<in> set (hiddenimports r). \<exists>p \<in> set plugin_packages.
         importable_under env p x \<and> prefix (p @ ''.'') x)"
    by blast
qed

theorem hiddenimports_exact_witness:
  "resolve (importable site_ok) (split_dots ''gallery_dl.extractor'') \<noteq> None \<and>
   resolve (importable site_ok) (split_dots ''gallery_dl.downloader'') \<noteq> None \<and>
   resolve (importable site_ok) (split_dots ''gallery_dl.postprocessor'') \<noteq> None \<and>
   resolve (importable site_ok) (split_dots ''gallery_dl.output'') \<noteq> None \<and>
   installed site_ok ''gallery_dl'' \<noteq> None \<and>
   (\<exists>r. hook_gallery_dl site_ok = Inr r \<and>
      hiddenimports r = [''gallery_dl.extractor.2ch'', ''gallery_dl.extractor.common'',
                         ''gallery_dl.downloader.http''] \<and>
      (\<exists>p \<in> set plugin_packages.
         importable_under site_ok p ''gallery_dl.extractor.2ch'' \<and>
         prefix (p @ ''.'') ''gallery_dl.extractor.2ch''))"
proof -
  have pre: "resolve (importable site_ok) (split_dots ''gallery_dl.extractor'') \<noteq> None"
    "resolve (importable site_ok) (split_dots ''gallery_dl.downloader'') \<noteq> None"
    "resolve (importable site_ok) (split_dots ''gallery_dl.postprocessor'') \<noteq> None"
    "resolve (importable site_ok) (split_dots ''gallery_dl.output'') \<noteq> None"
    "installed site_ok ''gallery_dl'' \<noteq> None"
    by (simp_all add: site_defs)
  then have "(\<forall>p \<in> set plugin_packages.
        resolve (importable site_ok) (split_dots p) \<noteq> None) \<and>
      installed site_ok ''gallery_dl'' \<noteq> None"
    by (simp add: plugin_packages_def)
  with hiddenimports_exact [of site_ok] obtain r where h: "hook_gallery_dl site_ok = Inr r"
    by blast
  then have names: "hiddenimports r = [''gallery_dl.extractor.2ch'',
      ''gallery_dl.extractor.common'', ''gallery_dl.downloader.http'']"
    by (auto simp: hook_eval site_defs)
  from hiddenimports_exact [of site_ok] h
  have "\<forall>x \<in> set (hiddenimports r). \<exists>p \<in> set plugin_packages.
      importable_under site_ok p x \<and> prefix (p @ ''.'') x"
    by blast
  then have "\<exists>p \<in> set plugin_packages.
      importable_under site_ok p ''gallery_dl.extractor.2ch'' \<and>
      prefix (p @ ''.'') ''gallery_dl.extractor.2ch''"
    by (simp add: names)
  with pre h names show ?thesis by blast
qed

text \<open>
  C6. The hook evaluates exactly when each of the four plugin packages can be imported
  and the library is installed. When it does, \<^verbatim>\<open>datas\<close> has one pair for every file
  the library ships, Python sources included, in the order of the files: the source is
  the file in the installed location, the destination is the same relative path under
  \<^verbatim>\<open>gallery_dl\<close>. Copying the pairs into an empty bundle gives, under
  \<^verbatim>\<open>gallery_dl\<close>, exactly the files of the installed tree with their bytes, and
  nothing anywhere else.
\<close>

theorem datas_reproduce_tree:
  "((\<exists>r. hook_gallery_dl env = Inr r) \<longleftrightarrow>
      (\<forall>p \<in> set plugin_packages. resolve (importable env) (split_dots p) \<noteq> None) \<and>
      installed env ''gallery_dl'' \<noteq> None) \<and>
   (\<forall>r. hook_gallery_dl env = Inr r \<longrightarrow>
      (\<exists>d. installed env ''gallery_dl'' = Some d \<and>
         datas r = map (\<lambda>(rel, content). (installed_at d @ rel, ''gallery_dl'' # rel))
                     (shipped d) \<and>
         (\<forall>rel. copy_datas (installed_tree d) (datas r) Map.empty (''gallery_dl'' # rel)
                  = map_of (shipped d) rel) \<and>
         (\<forall>p. copy_datas (installed_tree d) (datas r) Map.empty p \<noteq> None
                  \<longrightarrow> (\<exists>rel. p = ''gallery_dl'' # rel))))"
proof (rule conjI, rule hook_answers_iff, rule allI, rule impI)
  fix r assume h: "hook_gallery_dl env = Inr r"
  from h obtain ds where
    ds: "collect_data_files env ''gallery_dl'' True = Inr ds" and r: "datas r = ds"
    by (auto simp: hook_gallery_dl_def split: sum.splits)
  from ds obtain d where
    d: "installed env ''gallery_dl'' = Some d" and
    ds': "ds = map (\<lambda>(rel, content). (installed_at d @ rel, ''gallery_dl'' # rel)) (shipped d)"
    by (auto simp: collect_data_files_def split: option.splits)
  have present: "\<forall>(rel', content) \<in> set (shipped d).
      installed_tree d (installed_at d @ rel') \<noteq> None"
    by (auto simp: installed_tree_at weak_map_of_SomeI)
  have at: "copy_datas (installed_tree d) (datas r) Map.empty (''gallery_dl'' # rel)
      = map_of (shipped d) rel" for rel
  proof (cases "rel \<in> fst ` set (shipped d)")
    case True
    then show ?thesis
      unfolding r ds' copy_datas_at [OF present] by (simp add: installed_tree_at)
  next
    case False
    then have "map_of (shipped d) rel = None" by (simp add: map_of_eq_None_iff)
    with False show ?thesis
      unfolding r ds' copy_datas_at [OF present] by simp
  qed
  have other: "\<exists>rel. p = ''gallery_dl'' # rel"
    if "copy_datas (installed_tree d) (datas r) Map.empty p \<noteq> None" for p
  proof (rule ccontr)
    assume "\<not> (\<exists>rel. p = ''gallery_dl'' # rel)"
    then have "\<forall>rel. p \<noteq> ''gallery_dl'' # rel" by blast
    from copy_datas_other [OF this, of "installed_tree d" "installed_at d" "shipped d" Map.empty]
    have "copy_datas (installed_tree d) (datas r) Map.empty p = None"
      by (simp add: r ds')
    with that show False by simp
  qed
  from d r ds' at other
  show "\<exists>d. installed env ''gallery_dl'' = Some d \<and>
         datas r = map (\<lambda>(rel, content). (installed_at d @ rel, ''gallery_dl'' # rel))
                     (shipped d) \<and>
         (\<forall>rel. copy_datas (installed_tree d) (datas r) Map.empty (''gallery_dl'' # rel)
                  = map_of (shipped d) rel) \<and>
         (\<forall>p. copy_datas (installed_tree d) (datas r) Map.empty p \<noteq> None
                  \<longrightarrow> (\<exists>rel. p = ''gallery_dl'' # rel))"
    by blast
qed

theorem datas_reproduce_tree_witness:
  "resolve (importable site_ok) (split_dots ''gallery_dl.extractor'') \<noteq> None \<and>
   resolve (importable site_ok) (split_dots ''gallery_dl.downloader'') \<noteq> None \<and>
   resolve (importable site_ok) (split_dots ''gallery_dl.postprocessor'') \<noteq> None \<and>
   resolve (importable site_ok) (split_dots ''gallery_dl.output'') \<noteq> None \<and>
   installed site_ok ''gallery_dl'' = Some gallery_dl_dist \<and>
   (\<exists>r. hook_gallery_dl site_ok = Inr r \<and>
      datas r = [([''site-packages'', ''gallery_dl'', ''__init__.py''],
                  [''gallery_dl'', ''__init__.py'']),
                 ([''site-packages'', ''gallery_dl'', ''extractor'', ''2ch.py''],
                  [''gallery_dl'', ''extractor'', ''2ch.py'']),
                 ([''site-packages'', ''gallery_dl'', ''output.py''],
                  [''gallery_dl'', ''output.py''])] \<and>
      copy_datas (installed_tree gallery_dl_dist) (datas r) Map.empty
        [''gallery_dl'', ''extractor'', ''2ch.py''] = Some ''x = 1'')"
proof -
  have pre: "resolve (importable site_ok) (split_dots ''gallery_dl.extractor'') \<noteq> None"
    "resolve (importable site_ok) (split_dots ''gallery_dl.downloader'') \<noteq> None"
    "resolve (importable site_ok) (split_dots ''gallery_dl.postprocessor'') \<noteq> None"
    "resolve (importable site_ok) (split_dots ''gallery_dl.output'') \<noteq> None"
    and i: "installed site_ok ''gallery_dl'' = Some gallery_dl_dist"
    by (simp_all add: site_defs)
  then have "(\<forall>p \<in> set plugin_packages.
        resolve (importable site_ok) (split_dots p) \<noteq> None) \<and>
      installed site_ok ''gallery_dl'' \<noteq> None"
    by (simp add: plugin_packages_def)
  with datas_reproduce_tree [of site_ok] obtain r where h: "hook_gallery_dl site_ok = Inr r"
    by blast
  from datas_reproduce_tree [of site_ok] h i
  have ds: "datas r = map (\<lambda>(rel, content).
        (installed_at gallery_dl_dist @ rel, ''gallery_dl'' # rel)) (shipped gallery_dl_dist)"
    and cp: "copy_datas (installed_tree gallery_dl_dist) (datas r) Map.empty
          (''gallery_dl'' # [''extractor'', ''2ch.py''])
        = map_of (shipped gallery_dl_dist) [''extractor'', ''2ch.py'']"
    by auto
  from ds have ds': "datas r = [([''site-packages'', ''gallery_dl'', ''__init__.py''],
                  [''gallery_dl'', ''__init__.py'']),
                 ([''site-packages'', ''gallery_dl'', ''extractor'', ''2ch.py''],
                  [''gallery_dl'', ''extractor'', ''2ch.py'']),
                 ([''site-packages'', ''gallery_dl'', ''output.py''],
                  [''gallery_dl'', ''output.py''])]"
    by (simp add: gallery_dl_dist_def)
  from cp have "copy_datas (installed_tree gallery_dl_dist) (datas r) Map.empty
          [''gallery_dl'', ''extractor'', ''2ch.py''] = Some ''x = 1''"
    by (simp add: gallery_dl_dist_def)
  with pre i h ds' show ?thesis by blast
qed

text \<open>
  C7. When \<^verbatim>\<open>gallery_dl\<close> cannot be imported, or is not installed, at the time the hook
  is evaluated, the evaluation ends in an exception: there is no manifest, empty or
  partial.
\<close>

theorem missing_library_fails:
  assumes "resolve (importable env) [''gallery_dl''] = None \<or>
           installed env ''gallery_dl'' = None"
  shows "\<exists>e. hook_gallery_dl env = Inl e"
  using assms
proof
  assume "resolve (importable env) [''gallery_dl''] = None"
  then have "resolve (importable env) (split_dots ''gallery_dl.extractor'') = None"
    by simp
  then show ?thesis by (simp add: hook_gallery_dl_def collect_submodules_def)
next
  assume "installed env ''gallery_dl'' = None"
  then have "collect_data_files env ''gallery_dl'' True = Inl (ImportError ''gallery_dl'')"
    by (simp add: collect_data_files_def)
  then show ?thesis by (auto simp: hook_gallery_dl_def split: sum.splits)
qed

theorem missing_library_fails_witness:
  "resolve (importable site_empty) [''gallery_dl''] = None \<and>
   hook_gallery_dl site_empty = Inl (ImportError ''gallery_dl.extractor'')"
proof -
  have h: "resolve (importable site_empty) [''gallery_dl''] = None"
    by (simp add: site_defs)
  then have "resolve (importable site_empty) [''gallery_dl''] = None \<or>
      installed site_empty ''gallery_dl'' = None"
    by simp
  from missing_library_fails [OF this] obtain e where e: "hook_gallery_dl site_empty = Inl e"
    by blast
  then have "e = ImportError ''gallery_dl.extractor''"
    by (simp add: hook_eval site_defs)
  with h e show ?thesis by simp
qed

end
